theory Spec2Isabelle
  imports Main "HOL-Library.Sublist" "HOL-Library.Char_ord" "HOL-Library.List_Lexorder"
    "HOL-Library.Multiset" "HOL-Library.Product_Lexorder"
begin

section \<open>The host object model read by the dialog\<close>

text \<open>
  \<^verbatim>\<open>LayerFieldFeatureWidget\<close> reads layers, fields and features of the host application.
  A field carries a name, a \<^verbatim>\<open>QVariant\<close> type tag and formatting metadata. A layer is a
  vector or a raster layer (the two kinds \<^verbatim>\<open>filter_layer\<close> knows); it carries its
  registry id, its name, its WKB geometry code, its fields and its features. A feature is
  the vector of its attribute values, aligned with the fields of its layer. Attribute values
  are kept abstract: any type \<open>'v\<close> with a linear order, the order Python's
  \<^verbatim>\<open>list.sort\<close> uses on the values of one field.
\<close>

datatype layer_kind = VectorLayer | RasterLayer

record field =
  fname :: string
  ftype :: int
  ftypeName :: string
  flength :: int
  fprecision :: int

record 'v layer =
  layer_id :: string
  layer_name :: string
  layer_kind :: layer_kind
  wkbType :: int
  layer_fields :: "field list"
  layer_features :: "'v list list"

datatype error = KeyError | AttributeError

section \<open>What the runtime does\<close>

text \<open>
  Three functions of the Python and Qt runtime are parameters of the model:
  \<^verbatim>\<open>str.lower\<close>, which follows the Unicode case mapping on every string it is given,
  \<^verbatim>\<open>str(value)\<close> and \<^verbatim>\<open>value.toString(Qt.ISODate)\<close> on an attribute value. Every
  theorem below holds for whatever these functions are.
\<close>

record 'v host =
  str_lower :: "string \<Rightarrow> string"
  to_str :: "'v \<Rightarrow> string"
  to_iso :: "'v \<Rightarrow> string"

text \<open>
  On a string of ASCII characters \<^verbatim>\<open>str.lower\<close> maps the letters A to Z to a to z and
  leaves the rest; the examples, whose strings are ASCII, are run with this function.
  \<^verbatim>\<open>a in b\<close> on strings is the contiguous-substring test.
\<close>

definition ascii_lower_char :: "char \<Rightarrow> char" where
  "ascii_lower_char c =
     (case map_of (zip ''ABCDEFGHIJKLMNOPQRSTUVWXYZ'' ''abcdefghijklmnopqrstuvwxyz'') c of
        Some d \<Rightarrow> d
      | None \<Rightarrow> c)"

definition ascii_lower :: "string \<Rightarrow> string" where
  "ascii_lower s = map ascii_lower_char s"

fun str_in :: "string \<Rightarrow> string \<Rightarrow> bool" where
  "str_in k [] = (k = [])"
| "str_in k (c # cs) = (prefix k (c # cs) \<or> str_in k cs)"

section \<open>Constructor arguments\<close>

text \<open>
  \<^verbatim>\<open>layer_matches\<close> and \<^verbatim>\<open>field_matches\<close> are collections of strings. The code reads
  them through \<^verbatim>\<open>len\<close> and \<^verbatim>\<open>.keys()\<close>. A mapping has keys (they are distinct); a
  set, list or tuple has a length but no \<^verbatim>\<open>keys\<close>, and asking for them raises
  \<^verbatim>\<open>AttributeError\<close>. The default of \<^verbatim>\<open>layer_matches\<close> is the empty set.
\<close>

datatype matches = Mapping "string list" | Plain "string list"

fun entries :: "matches \<Rightarrow> string list" where
  "entries (Mapping ks) = ks"
| "entries (Plain xs) = xs"

definition len_matches :: "matches \<Rightarrow> nat" where
  "len_matches m = length (entries m)"

fun keys :: "matches \<Rightarrow> error + string list" where
  "keys (Mapping ks) = Inr ks"
| "keys (Plain xs) = Inl AttributeError"

text \<open>
  \<^verbatim>\<open>field_matches\<close> defaults to \<^verbatim>\<open>None\<close>. \<^verbatim>\<open>layer_type\<close> and \<^verbatim>\<open>geometry_type\<close>
  default to \<^verbatim>\<open>set()\<close>, written \<open>None\<close> here; otherwise they are a string and an
  integer.
\<close>

record config =
  layer_matches :: matches
  field_matches :: "matches option"
  layer_type :: "string option"
  geometry_type :: "int option"

definition default_config :: config where
  "default_config =
     \<lparr>layer_matches = Plain [], field_matches = None, layer_type = None,
      geometry_type = None\<rparr>"

text \<open>\<^verbatim>\<open>len(self.layer_type)\<close>: the empty set has length 0, a string its length.\<close>

definition len_layer_type :: "config \<Rightarrow> nat" where
  "len_layer_type cfg = (case layer_type cfg of None \<Rightarrow> 0 | Some s \<Rightarrow> length s)"

section \<open>The layer exclusion set\<close>

text \<open>
  \<^verbatim>\<open>filter_layer\<close>: the lower-cased type string is looked up in a dictionary with the
  keys \<^verbatim>\<open>'vector'\<close> and \<^verbatim>\<open>'raster'\<close>; any other string raises \<^verbatim>\<open>KeyError\<close>.
  It is only called when \<^verbatim>\<open>len(self.layer_type) != 0\<close>, so on a string.
\<close>

definition filter_layer :: "'v host \<Rightarrow> string \<Rightarrow> error + layer_kind" where
  "filter_layer h s =
     (if str_lower h s = ''vector'' then Inr VectorLayer
      else if str_lower h s = ''raster'' then Inr RasterLayer
      else Inl KeyError)"

text \<open>
  The set comprehension of line 275 calls \<^verbatim>\<open>filter_layer\<close> once per layer, so it
  raises only when there is a layer to test.
\<close>

definition type_layers_of ::
  "'v host \<Rightarrow> config \<Rightarrow> 'v layer set \<Rightarrow> error + 'v layer set" where
  "type_layers_of h cfg layers =
     (if len_layer_type cfg \<noteq> 0 then
        (if layers = {} then Inr {}
         else case filter_layer h (case layer_type cfg of Some s \<Rightarrow> s | None \<Rightarrow> []) of
                Inl e \<Rightarrow> Inl e
              | Inr k \<Rightarrow> Inr {l \<in> layers. layer_kind l = k})
      else Inr {})"

text \<open>
  Line 277: \<^verbatim>\<open>self.geometry_type != 0\<close> holds for the default \<^verbatim>\<open>set()\<close> and for
  every non-zero code; the comparison of a WKB code with \<^verbatim>\<open>set()\<close> is false.
\<close>

definition geom_type_layers_of :: "config \<Rightarrow> 'v layer set \<Rightarrow> 'v layer set" where
  "geom_type_layers_of cfg layers =
     (if geometry_type cfg \<noteq> Some 0 then
        {l \<in> layers. layer_kind l \<noteq> RasterLayer \<and> Some (wkbType l) = geometry_type cfg}
      else {})"

text \<open>
  Lines 280 to 284: \<^verbatim>\<open>self.layer_matches.keys()\<close> is asked for once per layer, so a
  collection without keys raises only when it is not empty and there is a layer.
\<close>

definition name_layers_of ::
  "'v host \<Rightarrow> config \<Rightarrow> 'v layer set \<Rightarrow> error + 'v layer set" where
  "name_layers_of h cfg layers =
     (if len_matches (layer_matches cfg) \<noteq> 0 then
        (if layers = {} then Inr {}
         else case keys (layer_matches cfg) of
                Inl e \<Rightarrow> Inl e
              | Inr ks \<Rightarrow>
                  Inr {l \<in> layers. \<exists>key \<in> set ks.
                         str_in (str_lower h key) (str_lower h (layer_name l))})
      else Inr {})"

definition generate_layer_model ::
  "'v host \<Rightarrow> config \<Rightarrow> 'v layer set \<Rightarrow> error + 'v layer set" where
  "generate_layer_model h cfg layers =
     (case type_layers_of h cfg layers of
        Inl e \<Rightarrow> Inl e
      | Inr type_layers \<Rightarrow>
          (let geom_type_layers = geom_type_layers_of cfg layers in
           case name_layers_of h cfg layers of
             Inl e \<Rightarrow> Inl e
           | Inr name_layers \<Rightarrow>
               (let override = (len_layer_type cfg = len_matches (layer_matches cfg)
                                \<and> geometry_type cfg = None);
                    type_layers' = (if override then layers else type_layers);
                    geom_type_layers' = (if override then layers else geom_type_layers);
                    name_layers' = (if override then layers else name_layers);
                    allowed_layers =
                      layers \<inter> (type_layers' \<union> geom_type_layers' \<union> name_layers')
                in Inr (layers - allowed_layers))))"

section \<open>The field model\<close>

text \<open>
  \<^verbatim>\<open>QgsFields.append\<close> of the host rejects a field whose name is already present.
\<close>

definition QgsFields_append :: "field list \<Rightarrow> field \<Rightarrow> field list" where
  "QgsFields_append fs f = (if fname f \<in> set (map fname fs) then fs else fs @ [f])"

text \<open>
  The \<^verbatim>\<open>if\<close>/\<^verbatim>\<open>elif\<close> chain on \<^verbatim>\<open>field.type()\<close> of lines 228 to 243 (and again 247
  to 262): the new \<^verbatim>\<open>QgsField\<close> keeps name, type name, length and precision and gets
  the tag \<^verbatim>\<open>QVariant.Int\<close> (2), \<^verbatim>\<open>String\<close> (10), \<^verbatim>\<open>Date\<close> (14) or \<^verbatim>\<open>Double\<close> (6);
  for any other tag no branch is taken.
\<close>

definition retag :: "field \<Rightarrow> field option" where
  "retag f =
     (if ftype f = 2 \<or> ftype f = 4 then Some (f\<lparr>ftype := 2\<rparr>)
      else if ftype f = 10 then Some (f\<lparr>ftype := 10\<rparr>)
      else if ftype f = 14 then Some (f\<lparr>ftype := 14\<rparr>)
      else if ftype f = 6 then Some (f\<lparr>ftype := 6\<rparr>)
      else None)"

text \<open>The tags for which some branch of that chain is taken.\<close>

definition supported_type :: "int \<Rightarrow> bool" where
  "supported_type t \<longleftrightarrow> t = 2 \<or> t = 4 \<or> t = 10 \<or> t = 14 \<or> t = 6"

text \<open>
  \<^verbatim>\<open>for feature in features_list\<close>: the append is attempted once per feature. The
  attribute copied into \<^verbatim>\<open>temp_features\<close> is never read again and is left out.
\<close>

fun feature_loop :: "field \<Rightarrow> 'v list list \<Rightarrow> field list \<Rightarrow> field list" where
  "feature_loop f [] temp_fields = temp_fields"
| "feature_loop f (feature # rest) temp_fields =
     feature_loop f rest
       (case retag f of Some g \<Rightarrow> QgsFields_append temp_fields g | None \<Rightarrow> temp_fields)"

text \<open>\<^verbatim>\<open>for field in fields_list\<close>, with the test on the field made by the caller.\<close>

fun field_loop ::
  "(field \<Rightarrow> bool) \<Rightarrow> field list \<Rightarrow> 'v list list \<Rightarrow> field list \<Rightarrow> field list" where
  "field_loop P [] features_list temp_fields = temp_fields"
| "field_loop P (f # fs) features_list temp_fields =
     field_loop P fs features_list
       (if P f then feature_loop f features_list temp_fields else temp_fields)"

text \<open>\<^verbatim>\<open>for key in self.field_matches.keys()\<close>, with the equality test of line 226.\<close>

fun key_loop ::
  "'v host \<Rightarrow> string list \<Rightarrow> field list \<Rightarrow> 'v list list \<Rightarrow> field list \<Rightarrow> field list"
  where
  "key_loop h [] fields_list features_list temp_fields = temp_fields"
| "key_loop h (key # ks) fields_list features_list temp_fields =
     key_loop h ks fields_list features_list
       (field_loop (\<lambda>f. str_lower h key = str_lower h (fname f))
          fields_list features_list temp_fields)"

text \<open>
  \<^verbatim>\<open>generate_field_model\<close>: on a layer that is not a raster layer, a
  \<^verbatim>\<open>field_matches\<close> without \<^verbatim>\<open>keys\<close> raises at line 224, before any field is looked
  at.
\<close>

definition generate_field_model :: "'v host \<Rightarrow> config \<Rightarrow> 'v layer \<Rightarrow> error + field list" where
  "generate_field_model h cfg layer =
     (if layer_kind layer \<noteq> RasterLayer then
        (case field_matches cfg of
           Some m \<Rightarrow>
             (case keys m of
                Inl e \<Rightarrow> Inl e
              | Inr ks \<Rightarrow> Inr (key_loop h ks (layer_fields layer) (layer_features layer) []))
         | None \<Rightarrow>
             Inr (field_loop (\<lambda>f. True) (layer_fields layer) (layer_features layer) []))
      else Inr [])"

section \<open>The attribute-value list\<close>

text \<open>
  The dialog: the constructor arguments, the exclusion list, the three selectors and the two
  button boxes. The layer selector lists the project layers outside the exclusion list
  after the placeholder entry, which has index 0. The buttons are recorded by whether they
  are enabled.
\<close>

record 'v dialog =
  dlg_config :: config
  inverted_layer_model :: "'v layer set"
  layer_items :: "'v layer list"
  layer_index :: nat
  field_wdgt :: "field list"
  field_current :: string
  feature_wdgt :: "string list"
  feature_checked :: "string list"
  selection_button :: bool
  ok_button :: bool

text \<open>\<^verbatim>\<open>layer_wdgt.currentLayer()\<close>: nothing on the placeholder entry.\<close>

definition currentLayer :: "'v dialog \<Rightarrow> 'v layer option" where
  "currentLayer d =
     (if layer_index d = 0 \<or> length (layer_items d) < layer_index d then None
      else Some (layer_items d ! (layer_index d - 1)))"

definition accepted_layer :: "'v dialog \<Rightarrow> 'v layer option" where
  "accepted_layer d = currentLayer d"

text \<open>
  \<^verbatim>\<open>QgsFields.indexFromName\<close> gives -1 for an unknown name, and
  \<^verbatim>\<open>QgsFields.field\<close> raises \<^verbatim>\<open>KeyError\<close> on an index out of range.
\<close>

fun indexFromName :: "field list \<Rightarrow> string \<Rightarrow> int" where
  "indexFromName [] n = - 1"
| "indexFromName (f # fs) n =
     (if fname f = n then 0
      else (let i = indexFromName fs n in if i < 0 then - 1 else i + 1))"

definition QgsFields_field :: "field list \<Rightarrow> int \<Rightarrow> error + field" where
  "QgsFields_field fs i =
     (if 0 \<le> i \<and> i < int (length fs) then Inr (fs ! nat i) else Inl KeyError)"

text \<open>\<^verbatim>\<open>accepted_field\<close>: any exception of the lookup is turned into \<^verbatim>\<open>None\<close>.\<close>

definition accepted_field :: "'v dialog \<Rightarrow> field option" where
  "accepted_field d =
     (case QgsFields_field (field_wdgt d) (indexFromName (field_wdgt d) (field_current d)) of
        Inr f \<Rightarrow> Some f
      | Inl e \<Rightarrow> None)"

definition accepted_features :: "'v dialog \<Rightarrow> string list option" where
  "accepted_features d =
     (if length (feature_checked d) > 0 then Some (feature_checked d) else None)"

definition isDateOrTime :: "field \<Rightarrow> bool" where
  "isDateOrTime f \<longleftrightarrow> ftype f = 14 \<or> ftype f = 15 \<or> ftype f = 16"

text \<open>
  \<^verbatim>\<open>layer.uniqueValues(index)\<close>: the distinct values found at that position in the
  features of the layer, none for an index that is not a field of the layer. The host
  returns a set; it is listed here without repetition, and both branches of
  \<^verbatim>\<open>generate_feature_model\<close> sort what they read from it.
\<close>

definition uniqueValues :: "'v layer \<Rightarrow> int \<Rightarrow> 'v list" where
  "uniqueValues layer i =
     (if 0 \<le> i \<and> i < int (length (layer_fields layer))
      then remdups [feature ! nat i. feature \<leftarrow> layer_features layer, nat i < length feature]
      else [])"

text \<open>
  \<^verbatim>\<open>generate_feature_model\<close>. With no layer selected \<^verbatim>\<open>layer.fields()\<close> raises
  \<^verbatim>\<open>AttributeError\<close>, as it does on a raster layer, which has no fields; with no field
  selected \<^verbatim>\<open>field.name()\<close> raises it.
\<close>

definition generate_feature_model :: "'v::linorder host \<Rightarrow> 'v dialog \<Rightarrow> error + string list" where
  "generate_feature_model h d =
     (case accepted_layer d of
        None \<Rightarrow> Inl AttributeError
      | Some layer \<Rightarrow>
          if layer_kind layer = RasterLayer then Inl AttributeError
          else (case accepted_field d of
                  None \<Rightarrow> Inl AttributeError
                | Some field \<Rightarrow>
                    (let field_index = indexFromName (layer_fields layer) (fname field) in
                     if isDateOrTime field
                     then Inr (sort (map (to_iso h) (uniqueValues layer field_index)))
                     else Inr (map (to_str h) (sort (uniqueValues layer field_index))))))"

section \<open>The signal handlers\<close>

text \<open>\<^verbatim>\<open>feature_wdgt.clear()\<close> removes the items and with them the checks.\<close>

definition clear_features :: "'v dialog \<Rightarrow> 'v dialog" where
  "clear_features d = d\<lparr>feature_wdgt := [], feature_checked := []\<rparr>"

text \<open>
  \<^verbatim>\<open>on_selected_field\<close>: the bare \<^verbatim>\<open>except\<close> catches whatever the \<^verbatim>\<open>try\<close> block
  raises.
\<close>

definition on_selected_field :: "'v::linorder host \<Rightarrow> 'v dialog \<Rightarrow> 'v dialog" where
  "on_selected_field h d =
     (let d1 = clear_features d in
      case generate_feature_model h d1 of
        Inr attribute_values \<Rightarrow>
          d1\<lparr>feature_wdgt := feature_wdgt d1 @ attribute_values, selection_button := True\<rparr>
      | Inl e \<Rightarrow> clear_features (d1\<lparr>selection_button := False\<rparr>))"

text \<open>
  \<^verbatim>\<open>on_selected_layer\<close>. \<^verbatim>\<open>field_wdgt.setFields\<close> replaces the fields of the field
  selector, which then shows its empty entry. Nothing catches an exception here: when
  \<^verbatim>\<open>generate_field_model\<close> raises, the handler stops after it has enabled the confirm
  button, and the exception leaves it. The result is the dialog as the handler leaves it
  and the exception, if any.
\<close>

definition setFields :: "field list \<Rightarrow> 'v dialog \<Rightarrow> 'v dialog" where
  "setFields fs d = d\<lparr>field_wdgt := fs, field_current := []\<rparr>"

definition on_selected_layer :: "'v host \<Rightarrow> 'v dialog \<Rightarrow> 'v dialog \<times> error option" where
  "on_selected_layer h d =
     (if layer_index d \<noteq> 0 then
        (let d1 = d\<lparr>ok_button := True\<rparr> in
         case currentLayer d1 of
           None \<Rightarrow> (d1, Some AttributeError)
         | Some layer \<Rightarrow>
             (case generate_field_model h (dlg_config d1) layer of
                Inl e \<Rightarrow> (d1, Some e)
              | Inr fs \<Rightarrow>
                  (let d3 = clear_features (setFields fs d1)
                   in (if length (feature_wdgt d3) = 0 then d3\<lparr>selection_button := False\<rparr>
                       else d3, None))))
      else
        (clear_features (setFields [] (d\<lparr>ok_button := False, selection_button := False\<rparr>)),
         None))"

definition on_select_all :: "'v dialog \<Rightarrow> 'v dialog" where
  "on_select_all d = d\<lparr>feature_checked := feature_wdgt d\<rparr>"

definition on_deselect_all :: "'v dialog \<Rightarrow> 'v dialog" where
  "on_deselect_all d = d\<lparr>feature_checked := []\<rparr>"

text \<open>
  \<^verbatim>\<open>on_reset_layer\<close> puts both selectors on their first entry; each change is
  answered by the handler connected to it.
\<close>

definition on_reset_layer :: "'v::linorder host \<Rightarrow> 'v dialog \<Rightarrow> 'v dialog" where
  "on_reset_layer h d =
     on_selected_field h
       ((fst (on_selected_layer h (d\<lparr>layer_index := 0\<rparr>)))\<lparr>field_current := []\<rparr>)"

section \<open>A modal session\<close>

text \<open>
  \<^verbatim>\<open>__init__\<close> up to \<^verbatim>\<open>self.exec()\<close>: the exclusion list is computed once, the layer
  selector is put on the placeholder, both button boxes are disabled. An exception of
  \<^verbatim>\<open>generate_layer_model\<close> leaves the constructor.
\<close>

definition init :: "'v host \<Rightarrow> config \<Rightarrow> 'v layer list \<Rightarrow> error + 'v dialog" where
  "init h cfg project =
     (case generate_layer_model h cfg (set project) of
        Inl e \<Rightarrow> Inl e
      | Inr excluded \<Rightarrow>
          Inr \<lparr>dlg_config = cfg, inverted_layer_model = excluded,
               layer_items = filter (\<lambda>l. l \<notin> excluded) project, layer_index = 0,
               field_wdgt = [], field_current = [], feature_wdgt = [], feature_checked = [],
               selection_button = False, ok_button = False\<rparr>)"

text \<open>
  What can happen while the dialog runs. The user moves the layer selector to an entry or
  the field selector to a field; each emits the signal its handler is connected to. The
  user presses one of the four buttons (Escape and Return act as Cancel and Ok). The host
  changes the data of a listed layer, which the dialog holds by reference; no signal
  reaches the dialog then. After a handler the session goes on from the dialog as the
  handler left it, also when an exception left the handler.
\<close>

datatype 'v event =
    LayerChanged nat
  | FieldChanged string
  | YesToAll
  | NoToAll
  | Ok
  | Cancel
  | HostEdited nat "'v layer"

fun step :: "'v::linorder host \<Rightarrow> 'v dialog \<Rightarrow> 'v event \<Rightarrow> 'v dialog" where
  "step h d (LayerChanged i) =
     (if i \<le> length (layer_items d) then fst (on_selected_layer h (d\<lparr>layer_index := i\<rparr>))
      else d)"
| "step h d (FieldChanged n) =
     (if n = [] \<or> n \<in> set (map fname (field_wdgt d))
      then on_selected_field h (d\<lparr>field_current := n\<rparr>) else d)"
| "step h d YesToAll = on_select_all d"
| "step h d NoToAll = on_deselect_all d"
| "step h d Ok = d"
| "step h d Cancel = on_reset_layer h d"
| "step h d (HostEdited j l) =
     (if j < length (layer_items d) \<and> layer_id (layer_items d ! j) = layer_id l
      then d\<lparr>layer_items := (layer_items d)[j := l]\<rparr> else d)"

fun run :: "'v::linorder host \<Rightarrow> 'v dialog \<Rightarrow> 'v event list \<Rightarrow> 'v dialog" where
  "run h d [] = d"
| "run h d (e # es) = run h (step h d e) es"

text \<open>
  What every step of a session keeps: the layer selector is on one of its entries, and the
  confirm button is enabled exactly off the placeholder.
\<close>

definition ok_inv :: "'v dialog \<Rightarrow> bool" where
  "ok_inv d \<longleftrightarrow> layer_index d \<le> length (layer_items d) \<and> (ok_button d \<longleftrightarrow> layer_index d \<noteq> 0)"

section \<open>Example data\<close>

definition roads :: "string layer" where
  "roads = \<lparr>layer_id = ''L1'', layer_name = ''Roads'', layer_kind = VectorLayer, wkbType = 2,
            layer_fields = [], layer_features = []\<rparr>"

definition dem :: "string layer" where
  "dem = \<lparr>layer_id = ''L2'', layer_name = ''dem'', layer_kind = RasterLayer, wkbType = 0,
          layer_fields = [], layer_features = []\<rparr>"

definition wells :: "string layer" where
  "wells = \<lparr>layer_id = ''L3'', layer_name = ''wells'', layer_kind = VectorLayer, wkbType = 1,
            layer_fields = [], layer_features = []\<rparr>"

definition lakes :: "string layer" where
  "lakes = \<lparr>layer_id = ''L4'', layer_name = ''lakes'', layer_kind = VectorLayer, wkbType = 3,
            layer_fields = [], layer_features = []\<rparr>"

text \<open>
  A vector layer with a string field, a date field and a boolean field (tag 1), and two
  features. Its values are strings, rendered as they are.
\<close>

definition status_field :: field where
  "status_field =
     \<lparr>fname = ''status'', ftype = 10, ftypeName = ''String'', flength = 20, fprecision = 0\<rparr>"

definition built_field :: field where
  "built_field =
     \<lparr>fname = ''built'', ftype = 14, ftypeName = ''Date'', flength = 10, fprecision = 0\<rparr>"

definition flag_field :: field where
  "flag_field =
     \<lparr>fname = ''flag'', ftype = 1, ftypeName = ''Boolean'', flength = 1, fprecision = 0\<rparr>"

definition parcels :: "string layer" where
  "parcels =
     \<lparr>layer_id = ''L5'', layer_name = ''parcels'', layer_kind = VectorLayer, wkbType = 3,
      layer_fields = [status_field, built_field, flag_field],
      layer_features = [[''sold'', ''2021-03-04'', ''1''], [''open'', ''1999-12-31'', ''0''],
                        [''open'', ''1999-12-31'', ''0'']]\<rparr>"

definition parcels_emptied :: "string layer" where
  "parcels_emptied = parcels\<lparr>layer_features := []\<rparr>"

text \<open>The dialog built with no filter on a project of two layers.\<close>

definition start :: "string dialog" where
  "start = \<lparr>dlg_config = default_config, inverted_layer_model = {},
     layer_items = [parcels, dem], layer_index = 0,
     field_wdgt = [], field_current = [], feature_wdgt = [], feature_checked = [],
     selection_button = False, ok_button = False\<rparr>"

definition string_host :: "string host" where
  "string_host = \<lparr>str_lower = ascii_lower, to_str = (\<lambda>v. v), to_iso = (\<lambda>v. v)\<rparr>"

text \<open>
  Three sessions: a layer is chosen, the choice is cancelled; a layer and its date field
  are chosen; a layer is chosen, the host then removes its features, and a field of the
  field selector is chosen.
\<close>

definition cancelled_session :: "string dialog" where
  "cancelled_session = run string_host start [LayerChanged 1, Cancel]"

definition built_session :: "string dialog" where
  "built_session = run string_host start [LayerChanged 1, FieldChanged ''built'']"

definition emptied_session :: "string dialog" where
  "emptied_session =
     run string_host start
       [LayerChanged 1, HostEdited 0 parcels_emptied, FieldChanged ''status'']"

text \<open>
  Dates as year, month and day, ordered by year, then month, then day. The ISO form of
  \<^verbatim>\<open>QDate.toString(Qt.ISODate)\<close> is \<^verbatim>\<open>yyyy-MM-dd\<close> for the years 0 to 9999 and the
  empty string for any other year. A layer with a date field and two features, and the
  session in which that layer and that field are chosen. (\<^verbatim>\<open>str\<close> is not applied to the
  values of a date field.)
\<close>

type_synonym date = "nat \<times> nat \<times> nat"

definition digit :: "nat \<Rightarrow> char" where
  "digit n = ''0123456789'' ! (n mod 10)"

fun iso_date :: "date \<Rightarrow> string" where
  "iso_date (y, m, d) =
     (if y \<le> 9999
      then [digit (y div 1000), digit (y div 100), digit (y div 10), digit y] @ ''-'' @
           [digit (m div 10), digit m] @ ''-'' @ [digit (d div 10), digit d]
      else [])"

definition date_host :: "date host" where
  "date_host = \<lparr>str_lower = ascii_lower, to_str = iso_date, to_iso = iso_date\<rparr>"

definition archive :: "date layer" where
  "archive =
     \<lparr>layer_id = ''L6'', layer_name = ''archive'', layer_kind = VectorLayer, wkbType = 1,
      layer_fields = [built_field],
      layer_features = [[(10000, 1, 1)], [(9999, 1, 1)]]\<rparr>"

definition archive_start :: "date dialog" where
  "archive_start = \<lparr>dlg_config = default_config, inverted_layer_model = {},
     layer_items = [archive], layer_index = 0,
     field_wdgt = [], field_current = [], feature_wdgt = [], feature_checked = [],
     selection_button = False, ok_button = False\<rparr>"

definition archive_session :: "date dialog" where
  "archive_session = run date_host archive_start [LayerChanged 1, FieldChanged ''built'']"

definition stat_config :: config where
  "stat_config = \<lparr>layer_matches = Plain [], field_matches = Some (Mapping [''stat'']),
                   layer_type = None, geometry_type = None\<rparr>"

definition status_config :: config where
  "status_config = \<lparr>layer_matches = Plain [], field_matches = Some (Mapping [''STATUS'']),
                     layer_type = None, geometry_type = None\<rparr>"

definition mesh_config :: config where
  "mesh_config = \<lparr>layer_matches = Mapping [''a'', ''b'', ''c'', ''d''], field_matches = None,
                   layer_type = Some ''Mesh'', geometry_type = None\<rparr>"

definition vector_config :: config where
  "vector_config =
     \<lparr>layer_matches = Mapping [''a'', ''b'', ''c'', ''d'', ''e'', ''f''],
      field_matches = None,
      layer_type = Some ''Vector'', geometry_type = None\<rparr>"

definition union_config :: config where
  "union_config = \<lparr>layer_matches = Mapping [''road''], field_matches = None,
                    layer_type = Some ''Raster'', geometry_type = Some 1\<rparr>"

section \<open>Properties of the layer exclusion set\<close>

lemma ascii_lower_Nil [simp]: "ascii_lower [] = []"
  by (simp add: ascii_lower_def)

lemma ascii_lower_Cons [simp]:
  "ascii_lower (c # cs) = ascii_lower_char c # ascii_lower cs"
  by (simp add: ascii_lower_def)

lemmas layer_model_defs =
  generate_layer_model_def type_layers_of_def geom_type_layers_of_def name_layers_of_def
  len_layer_type_def len_matches_def filter_layer_def

lemmas example_layer_defs = roads_def dem_def wells_def lakes_def

text \<open>
  C3: with the layer-name, layer-type and geometry-type filters all left at their defaults,
  the exclusion set computed for any set of project layers is empty.
\<close>

theorem default_filters_exclude_nothing:
  "generate_layer_model h default_config layers = Inr {}"
  by (simp add: generate_layer_model_def type_layers_of_def name_layers_of_def
      len_layer_type_def len_matches_def default_config_def)

text \<open>
  C9 as stated fails: with the geometry filter at its default, the type string
  \<^verbatim>\<open>'Mesh'\<close> (4 characters) and a mapping with 4 name keys, the computation on a project
  with one layer raises \<^verbatim>\<open>KeyError\<close> in \<^verbatim>\<open>filter_layer\<close> before the lengths are
  compared.
\<close>

theorem equal_lengths_counterexample:
  "geometry_type mesh_config = None \<and>
   len_layer_type mesh_config = len_matches (layer_matches mesh_config) \<and>
   generate_layer_model string_host mesh_config {roads} = Inl KeyError"
  by (simp add: mesh_config_def layer_model_defs string_host_def ascii_lower_char_def)

text \<open>
  C9, amended: if the geometry filter is at its default, the type string and the name
  collection have equal lengths, \<^verbatim>\<open>filter_layer\<close> does not raise (there is no project
  layer, or the type string is absent or empty, or its lower-cased form is \<^verbatim>\<open>'vector'\<close>
  or \<^verbatim>\<open>'raster'\<close>) and the keys of the name collection can be read (there is no project
  layer, or the collection is empty, or it is a mapping), then the exclusion set is empty.
\<close>

theorem equal_lengths_exclude_nothing:
  assumes "geometry_type cfg = None"
    and "len_layer_type cfg = len_matches (layer_matches cfg)"
    and "layers = {} \<or> layer_type cfg = None \<or>
         (\<exists>s. layer_type cfg = Some s \<and>
              (s = [] \<or> str_lower h s = ''vector'' \<or> str_lower h s = ''raster''))"
    and "layers = {} \<or> len_matches (layer_matches cfg) = 0 \<or>
         (\<exists>ks. layer_matches cfg = Mapping ks)"
  shows "generate_layer_model h cfg layers = Inr {}"
proof -
  from assms(3) have "\<exists>type_layers. type_layers_of h cfg layers = Inr type_layers"
    by (auto simp add: type_layers_of_def len_layer_type_def filter_layer_def)
  then obtain type_layers where t: "type_layers_of h cfg layers = Inr type_layers" ..
  from assms(4) have "\<exists>name_layers. name_layers_of h cfg layers = Inr name_layers"
    by (auto simp add: name_layers_of_def)
  then obtain name_layers where n: "name_layers_of h cfg layers = Inr name_layers" ..
  from assms(1,2) t n show ?thesis
    by (simp add: generate_layer_model_def Let_def)
qed

theorem equal_lengths_exclude_nothing_witness:
  "geometry_type vector_config = None \<and>
   len_layer_type vector_config = 6 \<and> len_matches (layer_matches vector_config) = 6 \<and>
   str_lower string_host ''Vector'' = ''vector'' \<and>
   layer_matches vector_config = Mapping [''a'', ''b'', ''c'', ''d'', ''e'', ''f''] \<and>
   generate_layer_model string_host vector_config {roads, dem} = Inr {}"
  using equal_lengths_exclude_nothing [of vector_config "{roads, dem}" string_host]
  by (simp add: vector_config_def len_layer_type_def len_matches_def string_host_def
      ascii_lower_char_def)

lemma union_example_excluded:
  "generate_layer_model string_host union_config {roads, dem, wells, lakes} = Inr {lakes}"
  by (auto simp add: union_config_def layer_model_defs string_host_def ascii_lower_char_def
      example_layer_defs Let_def)

text \<open>
  C2 as stated fails: with the type filter \<^verbatim>\<open>'Raster'\<close>, the geometry filter 1 and the
  name key \<^verbatim>\<open>'road'\<close>, only the layer \<open>lakes\<close> is excluded. The vector layer \<open>roads\<close>
  (geometry code 2) is shown although it matches neither the type nor the geometry filter:
  it matches the name filter.
\<close>

theorem type_geometry_union_counterexample:
  "generate_layer_model string_host union_config {roads, dem, wells, lakes} = Inr {lakes} \<and>
   roads \<in> {roads, dem, wells, lakes} - {lakes} \<and>
   filter_layer string_host ''Raster'' = Inr RasterLayer \<and>
   layer_kind roads \<noteq> RasterLayer \<and> wkbType roads \<noteq> 1"
  using union_example_excluded
  by (simp add: filter_layer_def string_host_def ascii_lower_char_def example_layer_defs)

text \<open>
  C2, amended: when a non-empty type string that \<^verbatim>\<open>filter_layer\<close> accepts and a non-zero
  geometry code are both supplied, and the keys of the name collection can be read (there
  is no project layer, or the collection is empty, or it is a mapping), the computation
  returns an exclusion set, and the layers shown (the project layers outside it) are the
  union of the layers of the requested kind, the vector layers with the requested geometry
  code, and the layers whose lower-cased name contains some lower-cased entry of the name
  collection (none when that collection is empty).
\<close>

theorem type_geometry_name_union:
  assumes "layer_type cfg = Some s" and "s \<noteq> []" and "filter_layer h s = Inr k"
    and "geometry_type cfg = Some g" and "g \<noteq> 0"
    and "layers = {} \<or> len_matches (layer_matches cfg) = 0 \<or>
         (\<exists>ks. layer_matches cfg = Mapping ks)"
  shows "\<exists>ex. generate_layer_model h cfg layers = Inr ex \<and>
     layers - ex =
       {l \<in> layers. layer_kind l = k} \<union>
       {l \<in> layers. layer_kind l = VectorLayer \<and> wkbType l = g} \<union>
       {l \<in> layers. \<exists>key \<in> set (entries (layer_matches cfg)).
                      str_in (str_lower h key) (str_lower h (layer_name l))}"
proof -
  have kinds: "\<And>l::'a layer. layer_kind l \<noteq> RasterLayer \<longleftrightarrow> layer_kind l = VectorLayer"
    by (metis layer_kind.exhaust layer_kind.distinct(1))
  from assms(1,2,3) have t: "type_layers_of h cfg layers = Inr {l \<in> layers. layer_kind l = k}"
    by (auto simp add: type_layers_of_def len_layer_type_def)
  from assms(4,5) have g: "geom_type_layers_of cfg layers =
      {l \<in> layers. layer_kind l = VectorLayer \<and> wkbType l = g}"
    by (auto simp add: geom_type_layers_of_def kinds)
  from assms(6) have n: "name_layers_of h cfg layers =
      Inr {l \<in> layers. \<exists>key \<in> set (entries (layer_matches cfg)).
                      str_in (str_lower h key) (str_lower h (layer_name l))}"
    by (auto simp add: name_layers_of_def len_matches_def)
  from assms(4) t g n show ?thesis
    by (auto simp add: generate_layer_model_def Let_def)
qed

theorem type_geometry_name_union_witness:
  "layer_type union_config = Some ''Raster'' \<and> ''Raster'' \<noteq> [] \<and>
   filter_layer string_host ''Raster'' = Inr RasterLayer \<and>
   geometry_type union_config = Some 1 \<and> (1::int) \<noteq> 0 \<and>
   layer_matches union_config = Mapping [''road''] \<and>
   (\<exists>ex. generate_layer_model string_host union_config {roads, dem, wells, lakes} = Inr ex \<and>
         {roads, dem, wells, lakes} - ex = {roads, dem, wells})"
proof -
  have h1: "layer_type union_config = Some ''Raster''"
    by (simp add: union_config_def)
  have h2: "''Raster'' \<noteq> []"
    by simp
  have h3: "filter_layer string_host ''Raster'' = Inr RasterLayer"
    by (simp add: filter_layer_def string_host_def ascii_lower_char_def)
  have h4: "geometry_type union_config = Some 1"
    by (simp add: union_config_def)
  have h5: "(1::int) \<noteq> 0"
    by simp
  have m: "layer_matches union_config = Mapping [''road'']"
    by (simp add: union_config_def)
  then have h6: "{roads, dem, wells, lakes} = {} \<or>
      len_matches (layer_matches union_config) = 0 \<or>
      (\<exists>ks. layer_matches union_config = Mapping ks)"
    by simp
  from type_geometry_name_union [OF h1 h2 h3 h4 h5 h6]
  obtain ex where
    ex: "generate_layer_model string_host union_config {roads, dem, wells, lakes} = Inr ex"
    by blast
  with union_example_excluded have "ex = {lakes}"
    by simp
  moreover have "{roads, dem, wells, lakes} - {lakes} = {roads, dem, wells}"
    by (auto simp add: example_layer_defs)
  ultimately show ?thesis
    using h1 h3 h4 m ex by simp
qed

section \<open>Properties of the field model\<close>

lemma retag_fname: "retag f = Some g \<Longrightarrow> fname g = fname f"
  by (auto simp add: retag_def split: if_splits)

lemma retag_None_iff: "retag f = None \<longleftrightarrow> \<not> supported_type (ftype f)"
  by (auto simp add: retag_def supported_type_def)

lemma names_QgsFields_append:
  "fname ` set (QgsFields_append fs g) = insert (fname g) (fname ` set fs)"
  by (auto simp add: QgsFields_append_def)

lemma names_feature_loop:
  "fname ` set (feature_loop f feats temp) =
     fname ` set temp \<union> (if feats \<noteq> [] \<and> supported_type (ftype f) then {fname f} else {})"
proof (induction feats arbitrary: temp)
  case Nil
  show ?case by simp
next
  case (Cons feature rest)
  show ?case
  proof (cases "retag f")
    case None
    then have "\<not> supported_type (ftype f)"
      by (simp add: retag_None_iff)
    with None Cons.IH [of temp] show ?thesis by simp
  next
    case (Some g)
    then have "supported_type (ftype f)" and "fname g = fname f"
      using retag_None_iff [of f] retag_fname [of f g] by auto
    with Some Cons.IH [of "QgsFields_append temp g"] show ?thesis
      by (auto simp add: names_QgsFields_append)
  qed
qed

lemma names_field_loop:
  "fname ` set (field_loop P fs feats temp) =
     fname ` set temp \<union>
     {fname f | f. f \<in> set fs \<and> P f \<and> feats \<noteq> [] \<and> supported_type (ftype f)}"
proof (induction fs arbitrary: temp)
  case Nil
  show ?case by simp
next
  case (Cons f fs)
  have "fname ` set (field_loop P (f # fs) feats temp) =
        fname ` set (if P f then feature_loop f feats temp else temp) \<union>
        {fname f' | f'. f' \<in> set fs \<and> P f' \<and> feats \<noteq> [] \<and> supported_type (ftype f')}"
    by (simp only: field_loop.simps Cons.IH)
  also have "\<dots> = fname ` set temp \<union>
     {fname f' | f'. f' \<in> set (f # fs) \<and> P f' \<and> feats \<noteq> [] \<and> supported_type (ftype f')}"
    by (auto simp add: names_feature_loop)
  finally show ?case .
qed

lemma names_key_loop:
  "fname ` set (key_loop h ks fs feats temp) =
     fname ` set temp \<union>
     {fname f | f. f \<in> set fs \<and>
                  (\<exists>key \<in> set ks. str_lower h key = str_lower h (fname f)) \<and>
                  feats \<noteq> [] \<and> supported_type (ftype f)}"
proof (induction ks arbitrary: temp)
  case Nil
  show ?case by simp
next
  case (Cons key ks)
  have "fname ` set (key_loop h (key # ks) fs feats temp) =
        fname ` set (field_loop (\<lambda>f. str_lower h key = str_lower h (fname f)) fs feats temp) \<union>
        {fname f | f. f \<in> set fs \<and>
                  (\<exists>key \<in> set ks. str_lower h key = str_lower h (fname f)) \<and>
                  feats \<noteq> [] \<and> supported_type (ftype f)}"
    by (simp only: key_loop.simps Cons.IH)
  also have "\<dots> = fname ` set temp \<union>
     {fname f | f. f \<in> set fs \<and>
                  (\<exists>key \<in> set (key # ks). str_lower h key = str_lower h (fname f)) \<and>
                  feats \<noteq> [] \<and> supported_type (ftype f)}"
    by (auto simp add: names_field_loop)
  finally show ?case .
qed

text \<open>When the generator returns: always, except on a filter without keys.\<close>

lemma generate_field_model_returns:
  "(\<exists>model. generate_field_model h cfg l = Inr model) \<longleftrightarrow>
     layer_kind l = RasterLayer \<or> (\<forall>xs. field_matches cfg \<noteq> Some (Plain xs))"
proof (cases "field_matches cfg")
  case None
  then show ?thesis
    by (simp add: generate_field_model_def)
next
  case (Some m)
  then show ?thesis
    by (cases m) (simp_all add: generate_field_model_def)
qed

lemma generate_field_model_raises:
  "generate_field_model h cfg l = Inl e \<Longrightarrow>
     e = AttributeError \<and> (\<exists>xs. field_matches cfg = Some (Plain xs))"
proof (cases "field_matches cfg")
  case None
  assume "generate_field_model h cfg l = Inl e"
  with None show ?thesis
    by (simp add: generate_field_model_def split: if_splits)
next
  case (Some m)
  assume "generate_field_model h cfg l = Inl e"
  with Some show ?thesis
    by (cases m) (simp_all add: generate_field_model_def split: if_splits)
qed

lemma names_generate_field_model:
  assumes "generate_field_model h cfg l = Inr model"
  shows "fname ` set model =
     {fname f | f. f \<in> set (layer_fields l) \<and> layer_kind l \<noteq> RasterLayer \<and>
        (case field_matches cfg of None \<Rightarrow> True
         | Some m \<Rightarrow> \<exists>key \<in> set (entries m). str_lower h key = str_lower h (fname f)) \<and>
        layer_features l \<noteq> [] \<and> supported_type (ftype f)}"
proof (cases "layer_kind l = RasterLayer")
  case True
  with assms show ?thesis
    by (simp add: generate_field_model_def)
next
  case vector: False
  show ?thesis
  proof (cases "field_matches cfg")
    case None
    with vector assms have "fname ` set model =
        fname ` set (field_loop (\<lambda>f. True) (layer_fields l) (layer_features l) [])"
      by (auto simp add: generate_field_model_def)
    also have "\<dots> = {fname f | f. f \<in> set (layer_fields l) \<and> layer_features l \<noteq> [] \<and>
        supported_type (ftype f)}"
      by (simp add: names_field_loop)
    finally show ?thesis
      using vector None by simp
  next
    case (Some m)
    with vector assms obtain ks where m: "m = Mapping ks"
      by (cases m) (simp_all add: generate_field_model_def)
    with Some vector assms have "fname ` set model =
        fname ` set (key_loop h ks (layer_fields l) (layer_features l) [])"
      by (auto simp add: generate_field_model_def)
    also have "\<dots> = {fname f | f. f \<in> set (layer_fields l) \<and>
        (\<exists>key \<in> set ks. str_lower h key = str_lower h (fname f)) \<and>
        layer_features l \<noteq> [] \<and> supported_type (ftype f)}"
      by (simp add: names_key_loop)
    finally show ?thesis
      using vector Some m by simp
  qed
qed

lemmas field_model_eval =
  generate_field_model_def retag_def QgsFields_append_def string_host_def
  ascii_lower_char_def

lemma stat_model: "generate_field_model string_host stat_config parcels = Inr []"
  by (simp add: field_model_eval stat_config_def parcels_def status_field_def
      built_field_def flag_field_def)

text \<open>
  C1 as stated fails: the key \<^verbatim>\<open>'stat'\<close> occurs within the name of the string field
  \<^verbatim>\<open>'status'\<close> of a layer with three features, but the field model produced for that
  layer is empty. Line 226 compares the lower-cased key and field name for equality.
\<close>

theorem field_filter_substring_counterexample:
  "field_matches stat_config = Some (Mapping [''stat'']) \<and>
   layer_kind parcels = VectorLayer \<and>
   status_field \<in> set (layer_fields parcels) \<and> ftype status_field = 10 \<and>
   str_in (str_lower string_host ''stat'') (str_lower string_host (fname status_field)) \<and>
   generate_field_model string_host stat_config parcels = Inr []"
  by (simp add: stat_model)
     (simp add: stat_config_def parcels_def status_field_def string_host_def
        ascii_lower_char_def)

text \<open>
  C1, amended: for a vector layer with at least one feature and a field filter that is a
  mapping, the field model is produced, and a name is in it exactly when it is the name of
  a field of the layer whose type tag is 2, 4, 10, 14 or 6 and whose lower-cased name
  equals the lower-cased form of some key of the mapping, both lower-cased by
  \<^verbatim>\<open>str.lower\<close>.
\<close>

theorem field_filter_exact_name_match:
  assumes "layer_kind l = VectorLayer" and "field_matches cfg = Some (Mapping ks)"
    and "layer_features l \<noteq> []"
  shows "\<exists>model. generate_field_model h cfg l = Inr model \<and>
         (n \<in> fname ` set model \<longleftrightarrow>
            (\<exists>f \<in> set (layer_fields l). fname f = n \<and> ftype f \<in> {2, 4, 10, 14, 6} \<and>
               (\<exists>key \<in> set ks. str_lower h key = str_lower h (fname f))))"
proof -
  from assms(2) obtain model where m: "generate_field_model h cfg l = Inr model"
    using generate_field_model_returns [of h cfg l] by auto
  from assms have "n \<in> fname ` set model \<longleftrightarrow>
      (\<exists>f \<in> set (layer_fields l). fname f = n \<and> ftype f \<in> {2, 4, 10, 14, 6} \<and>
         (\<exists>key \<in> set ks. str_lower h key = str_lower h (fname f)))"
    unfolding names_generate_field_model [OF m]
    by (auto simp add: supported_type_def)
  with m show ?thesis by blast
qed

theorem field_filter_exact_name_match_witness:
  "layer_kind parcels = VectorLayer \<and>
   field_matches status_config = Some (Mapping [''STATUS'']) \<and>
   layer_features parcels \<noteq> [] \<and>
   (\<exists>model. generate_field_model string_host status_config parcels = Inr model \<and>
      ''status'' \<in> fname ` set model \<and> ''built'' \<notin> fname ` set model)"
proof -
  have h1: "layer_kind parcels = VectorLayer" by (simp add: parcels_def)
  have h2: "field_matches status_config = Some (Mapping [''STATUS''])"
    by (simp add: status_config_def)
  have h3: "layer_features parcels \<noteq> []" by (simp add: parcels_def)
  have fs: "layer_fields parcels = [status_field, built_field, flag_field]"
    by (simp add: parcels_def)
  from field_filter_exact_name_match [OF h1 h2 h3, of string_host "''status''"]
  obtain model where m: "generate_field_model string_host status_config parcels = Inr model"
    and s: "''status'' \<in> fname ` set model \<longleftrightarrow>
      (\<exists>f \<in> set (layer_fields parcels). fname f = ''status'' \<and>
         ftype f \<in> {2, 4, 10, 14, 6} \<and>
         (\<exists>key \<in> set [''STATUS'']. str_lower string_host key = str_lower string_host (fname f)))"
    by blast
  from field_filter_exact_name_match [OF h1 h2 h3, of string_host "''built''"] m
  have b: "''built'' \<in> fname ` set model \<longleftrightarrow>
      (\<exists>f \<in> set (layer_fields parcels). fname f = ''built'' \<and>
         ftype f \<in> {2, 4, 10, 14, 6} \<and>
         (\<exists>key \<in> set [''STATUS'']. str_lower string_host key = str_lower string_host (fname f)))"
    by auto
  have "''status'' \<in> fname ` set model"
    unfolding s fs
    by (simp add: status_field_def string_host_def ascii_lower_char_def)
  moreover have "''built'' \<notin> fname ` set model"
    unfolding b fs
    by (simp add: status_field_def built_field_def flag_field_def string_host_def
        ascii_lower_char_def)
  ultimately show ?thesis using h1 h2 h3 m by simp
qed

text \<open>
  C6: a field of the layer whose type tag is none of 2, 4, 10, 14 and 6 is not in the field
  model and no entry of the field model has its name, whatever the field filter is; and a
  field model is produced unless the field filter is a collection without keys. The fields
  of a layer have distinct names, as \<^verbatim>\<open>QgsFields\<close> keeps them.
\<close>

theorem unsupported_type_never_in_field_model:
  assumes "distinct (map fname (layer_fields l))" and "f \<in> set (layer_fields l)"
    and "\<not> supported_type (ftype f)"
  shows "(\<forall>model. generate_field_model h cfg l = Inr model \<longrightarrow>
            fname f \<notin> fname ` set model \<and> f \<notin> set model) \<and>
         ((\<forall>xs. field_matches cfg \<noteq> Some (Plain xs)) \<longrightarrow>
            (\<exists>model. generate_field_model h cfg l = Inr model))"
proof -
  have "fname f \<notin> fname ` set model" if m: "generate_field_model h cfg l = Inr model"
    for model
  proof
    assume "fname f \<in> fname ` set model"
    then obtain g where g: "g \<in> set (layer_fields l)" "fname g = fname f"
      "supported_type (ftype g)"
      unfolding names_generate_field_model [OF m] by auto
    from assms(1) g(1,2) assms(2) have "g = f"
      by (meson distinct_map inj_onD)
    with g(3) assms(3) show False
      by simp
  qed
  then show ?thesis
    using generate_field_model_returns [of h cfg l] by blast
qed

theorem unsupported_type_never_in_field_model_witness:
  "distinct (map fname (layer_fields parcels)) \<and> flag_field \<in> set (layer_fields parcels) \<and>
   \<not> supported_type (ftype flag_field) \<and> field_matches default_config = None \<and>
   (\<exists>model. generate_field_model string_host default_config parcels = Inr model \<and>
      fname flag_field \<notin> fname ` set model \<and> flag_field \<notin> set model)"
proof -
  have h1: "distinct (map fname (layer_fields parcels))"
    by (simp add: parcels_def status_field_def built_field_def flag_field_def)
  have h2: "flag_field \<in> set (layer_fields parcels)"
    by (simp add: parcels_def)
  have h3: "\<not> supported_type (ftype flag_field)"
    by (simp add: supported_type_def flag_field_def)
  have h4: "field_matches default_config = None"
    by (simp add: default_config_def)
  from unsupported_type_never_in_field_model [OF h1 h2 h3, of string_host default_config]
    h1 h2 h3 h4
  show ?thesis
    by auto
qed

text \<open>
  C10: for a layer without features the field model is empty, whatever its fields and the
  field filter are: the append of a field is inside the loop over the features. (On a
  field filter without keys the generator raises instead and produces no field model.)
\<close>

theorem no_features_empty_field_model:
  assumes "layer_features l = []"
  shows "generate_field_model h cfg l = Inr [] \<or>
         (\<exists>xs. field_matches cfg = Some (Plain xs)) \<and>
         generate_field_model h cfg l = Inl AttributeError"
proof (cases "generate_field_model h cfg l")
  case (Inl e)
  then show ?thesis
    using generate_field_model_raises [of h cfg l e] by simp
next
  case (Inr model)
  with assms have "fname ` set model = {}"
    by (simp add: names_generate_field_model [OF Inr])
  with Inr show ?thesis by simp
qed

theorem no_features_empty_field_model_witness:
  "layer_features parcels_emptied = [] \<and>
   layer_fields parcels_emptied = [status_field, built_field, flag_field] \<and>
   generate_field_model string_host default_config parcels_emptied = Inr []"
proof -
  have h1: "layer_features parcels_emptied = []"
    by (simp add: parcels_emptied_def)
  have h2: "field_matches default_config = None"
    by (simp add: default_config_def)
  from no_features_empty_field_model [OF h1, of string_host default_config] h1 h2
  show ?thesis
    by (simp add: parcels_emptied_def parcels_def)
qed

section \<open>Properties of the attribute-value list and of the handlers\<close>

lemma init_start: "init string_host default_config [parcels, dem] = Inr start"
  by (simp add: init_def start_def generate_layer_model_def type_layers_of_def
      name_layers_of_def len_layer_type_def len_matches_def default_config_def)

lemmas session_eval =
  on_selected_layer_def on_selected_field_def on_reset_layer_def setFields_def
  clear_features_def generate_feature_model_def accepted_layer_def accepted_field_def
  currentLayer_def QgsFields_field_def uniqueValues_def isDateOrTime_def
  generate_field_model_def retag_def QgsFields_append_def default_config_def
  string_host_def parcels_def parcels_emptied_def dem_def status_field_def built_field_def
  flag_field_def Let_def

lemma archive_session_eval:
  "archive_session =
     archive_start\<lparr>layer_index := 1, field_wdgt := [built_field], field_current := ''built'',
                   feature_wdgt := [[], ''9999-01-01''], selection_button := True,
                   ok_button := True\<rparr>"
  by (simp add: archive_session_def archive_start_def archive_def date_host_def digit_def
      on_selected_layer_def on_selected_field_def setFields_def clear_features_def
      generate_feature_model_def accepted_layer_def accepted_field_def currentLayer_def
      QgsFields_field_def uniqueValues_def isDateOrTime_def generate_field_model_def
      retag_def QgsFields_append_def default_config_def built_field_def Let_def)

lemma cancelled_session_eval:
  "cancelled_session = start"
  by (simp add: cancelled_session_def start_def session_eval)

lemma built_session_eval:
  "built_session =
     start\<lparr>layer_index := 1, field_wdgt := [status_field, built_field],
           field_current := ''built'', feature_wdgt := [''1999-12-31'', ''2021-03-04''],
           selection_button := True, ok_button := True\<rparr>"
  by (simp add: built_session_def start_def session_eval)

lemma emptied_session_eval:
  "emptied_session =
     start\<lparr>layer_items := [parcels_emptied, dem], layer_index := 1,
           field_wdgt := [status_field, built_field], field_current := ''status'',
           feature_wdgt := [], selection_button := True, ok_button := True\<rparr>"
  by (simp add: emptied_session_def start_def session_eval)

lemma generate_feature_model_clear:
  "generate_feature_model h (clear_features d) = generate_feature_model h d"
  by (simp add: generate_feature_model_def clear_features_def accepted_layer_def
      currentLayer_def accepted_field_def)

text \<open>
  C5: whenever \<^verbatim>\<open>generate_feature_model\<close> raises, for whatever reason,
  \<^verbatim>\<open>on_selected_field\<close> returns the dialog with the value list (and its checks) cleared
  and the bulk select/deselect buttons disabled, and nothing else changed. The handler is a
  total function to dialogs: the exception ends in its \<^verbatim>\<open>except\<close> branch.
\<close>

theorem failed_enumeration_clears_and_disables:
  assumes "generate_feature_model h d = Inl e"
  shows "on_selected_field h d =
           d\<lparr>feature_wdgt := [], feature_checked := [], selection_button := False\<rparr>"
  using assms
  by (simp add: on_selected_field_def Let_def generate_feature_model_clear)
     (simp add: clear_features_def)

theorem failed_enumeration_clears_and_disables_witness:
  "generate_feature_model string_host
     (start\<lparr>selection_button := True, feature_wdgt := [''x'']\<rparr>) = Inl AttributeError \<and>
   on_selected_field string_host
     (start\<lparr>selection_button := True, feature_wdgt := [''x'']\<rparr>) = start"
proof -
  have h: "generate_feature_model string_host
     (start\<lparr>selection_button := True, feature_wdgt := [''x'']\<rparr>) = Inl AttributeError"
    by (simp add: generate_feature_model_def accepted_layer_def currentLayer_def start_def)
  from failed_enumeration_clears_and_disables [OF h] h show ?thesis
    by (simp add: start_def)
qed

lemma sort_map_sort: "sort (map f (sort xs)) = sort (map f xs)"
  by (rule properties_for_sort) simp_all

lemma sorted_map_strict:
  assumes "sorted xs" and "distinct xs"
    and "\<forall>a \<in> set xs. \<forall>b \<in> set xs. a < b \<longrightarrow> f a < f b"
  shows "sorted (map f xs)"
proof -
  from assms(1,2) have "sorted_wrt (<) xs"
    by (simp add: strict_sorted_iff)
  then have "sorted_wrt (\<lambda>a b. f a \<le> f b) xs"
    by (rule sorted_wrt_mono_rel [rotated]) (use assms(3) in \<open>auto simp: less_imp_le\<close>)
  then show ?thesis
    by (simp add: sorted_wrt_map)
qed

text \<open>
  C7 as stated fails for a date field: the code renders the values first and sorts the
  strings. In the layer \<open>archive\<close> the date field holds 1 January 9999 and 1 January
  10000. The enumeration succeeds; the earlier date is rendered \<^verbatim>\<open>'9999-01-01'\<close>, the
  later one as the empty string, and the list has the rendering of the later date first.
\<close>

theorem date_order_counterexample:
  "accepted_layer archive_session = Some archive \<and> layer_kind archive = VectorLayer \<and>
   accepted_field archive_session = Some built_field \<and> isDateOrTime built_field \<and>
   uniqueValues archive (indexFromName (layer_fields archive) (fname built_field)) =
     [(10000, 1, 1), (9999, 1, 1)] \<and>
   ((9999, 1, 1) :: date) < (10000, 1, 1) \<and>
   to_iso date_host (9999, 1, 1) = ''9999-01-01'' \<and>
   to_iso date_host (10000, 1, 1) = [] \<and>
   generate_feature_model date_host archive_session = Inr [[], ''9999-01-01'']"
proof -
  have "accepted_layer archive_session = Some archive"
    by (simp add: archive_session_eval archive_start_def accepted_layer_def currentLayer_def)
  moreover have "layer_kind archive = VectorLayer"
    by (simp add: archive_def)
  moreover have "accepted_field archive_session = Some built_field"
    by (simp add: archive_session_eval archive_start_def accepted_field_def
        QgsFields_field_def built_field_def)
  moreover have "isDateOrTime built_field"
    by (simp add: isDateOrTime_def built_field_def)
  moreover have
    "uniqueValues archive (indexFromName (layer_fields archive) (fname built_field)) =
       [(10000, 1, 1), (9999, 1, 1)]"
    by (simp add: uniqueValues_def archive_def built_field_def)
  moreover have "((9999, 1, 1) :: date) < (10000, 1, 1)"
    by simp
  moreover have "to_iso date_host (9999, 1, 1) = ''9999-01-01'' \<and>
      to_iso date_host (10000, 1, 1) = []"
    by (simp add: date_host_def digit_def)
  moreover have "generate_feature_model date_host archive_session = Inr [[], ''9999-01-01'']"
    by (simp add: archive_session_eval archive_start_def archive_def date_host_def digit_def
        generate_feature_model_def accepted_layer_def accepted_field_def currentLayer_def
        QgsFields_field_def uniqueValues_def isDateOrTime_def built_field_def Let_def)
  ultimately show ?thesis by blast
qed

text \<open>
  C7, amended: with a vector layer and a field selected, \<^verbatim>\<open>generate_feature_model\<close>
  returns, and its result is built from the list \<open>vals\<close> of the distinct values of that
  field in ascending order. For a field that is not a date or time the result is \<open>vals\<close>
  rendered by \<^verbatim>\<open>str\<close>, in that order. For a date or time field it is the ISO renderings
  of \<open>vals\<close> in ascending order of the rendered strings; that is the order of the values
  themselves whenever the ISO rendering preserves their order.
\<close>

theorem feature_model_sorted_distinct_rendered:
  assumes "accepted_layer d = Some layer" and "layer_kind layer = VectorLayer"
    and "accepted_field d = Some field"
  shows "\<exists>vals. sorted vals \<and> distinct vals \<and>
           set vals = set (uniqueValues layer (indexFromName (layer_fields layer) (fname field))) \<and>
           generate_feature_model h d =
             Inr (if isDateOrTime field then sort (map (to_iso h) vals)
                  else map (to_str h) vals) \<and>
           ((\<forall>a \<in> set vals. \<forall>b \<in> set vals. a < b \<longrightarrow> to_iso h a < to_iso h b) \<longrightarrow>
              sort (map (to_iso h) vals) = map (to_iso h) vals)"
proof -
  define us where "us = uniqueValues layer (indexFromName (layer_fields layer) (fname field))"
  have d: "distinct us"
    by (simp add: us_def uniqueValues_def)
  have g: "generate_feature_model h d =
      Inr (if isDateOrTime field then sort (map (to_iso h) (sort us))
           else map (to_str h) (sort us))"
    using assms by (simp add: generate_feature_model_def us_def Let_def sort_map_sort)
  have m: "(\<forall>a \<in> set (sort us). \<forall>b \<in> set (sort us). a < b \<longrightarrow> to_iso h a < to_iso h b) \<longrightarrow>
      sort (map (to_iso h) (sort us)) = map (to_iso h) (sort us)"
  proof
    assume "\<forall>a \<in> set (sort us). \<forall>b \<in> set (sort us). a < b \<longrightarrow> to_iso h a < to_iso h b"
    with d have "sorted (map (to_iso h) (sort us))"
      by (intro sorted_map_strict) simp_all
    then show "sort (map (to_iso h) (sort us)) = map (to_iso h) (sort us)"
      by (rule sort_key_id_if_sorted [where f = "\<lambda>x. x", simplified])
  qed
  from d g m show ?thesis
    unfolding us_def [symmetric]
    by (intro exI [of _ "sort us"]) simp
qed

theorem feature_model_sorted_distinct_rendered_witness:
  "accepted_layer built_session = Some parcels \<and> layer_kind parcels = VectorLayer \<and>
   accepted_field built_session = Some built_field \<and> isDateOrTime built_field \<and>
   ''1999-12-31'' < ''2021-03-04'' \<and>
   to_iso string_host ''1999-12-31'' < to_iso string_host ''2021-03-04'' \<and>
   generate_feature_model string_host built_session = Inr [''1999-12-31'', ''2021-03-04'']"
proof -
  have h1: "accepted_layer built_session = Some parcels"
    by (simp add: built_session_eval start_def accepted_layer_def currentLayer_def)
  have h2: "layer_kind parcels = VectorLayer"
    by (simp add: parcels_def)
  have h3: "accepted_field built_session = Some built_field"
    by (simp add: built_session_eval start_def accepted_field_def QgsFields_field_def
        status_field_def built_field_def)
  have h4: "isDateOrTime built_field"
    by (simp add: isDateOrTime_def built_field_def)
  have u: "uniqueValues parcels (indexFromName (layer_fields parcels) (fname built_field)) =
      [''2021-03-04'', ''1999-12-31'']"
    by (simp add: uniqueValues_def parcels_def status_field_def built_field_def flag_field_def)
  from feature_model_sorted_distinct_rendered [OF h1 h2 h3, of string_host]
  obtain vals where v: "sorted vals" "distinct vals"
      "set vals = set [''2021-03-04'', ''1999-12-31'']"
      "generate_feature_model string_host built_session =
         Inr (if isDateOrTime built_field then sort (map (to_iso string_host) vals)
              else map (to_str string_host) vals)"
    unfolding u by blast
  have "sorted [''1999-12-31'', ''2021-03-04''] \<and> distinct [''1999-12-31'', ''2021-03-04''] \<and>
      set [''1999-12-31'', ''2021-03-04''] = set [''2021-03-04'', ''1999-12-31'']"
    by auto
  with v(1,2,3) have "vals = [''1999-12-31'', ''2021-03-04'']"
    by (metis sorted_distinct_set_unique)
  with v(4) h4 have "generate_feature_model string_host built_session =
      Inr [''1999-12-31'', ''2021-03-04'']"
    by (simp add: string_host_def)
  with h1 h2 h3 h4 show ?thesis
    by (simp add: string_host_def)
qed

lemma on_selected_layer_frame:
  "layer_index (fst (on_selected_layer h d)) = layer_index d"
  "layer_items (fst (on_selected_layer h d)) = layer_items d"
  "ok_button (fst (on_selected_layer h d)) \<longleftrightarrow> layer_index d \<noteq> 0"
  by (simp_all add: on_selected_layer_def Let_def setFields_def clear_features_def
      split: option.splits sum.splits)

lemma on_selected_field_frame:
  "layer_index (on_selected_field h d) = layer_index d"
  "layer_items (on_selected_field h d) = layer_items d"
  "ok_button (on_selected_field h d) = ok_button d"
  by (simp_all add: on_selected_field_def Let_def clear_features_def split: sum.splits)

lemma ok_inv_step: "ok_inv d \<Longrightarrow> ok_inv (step h d e)"
proof (cases e)
  case (LayerChanged i)
  assume "ok_inv d"
  then show ?thesis
    by (simp add: LayerChanged ok_inv_def on_selected_layer_frame)
next
  case (FieldChanged n)
  assume "ok_inv d"
  then show ?thesis
    by (simp add: FieldChanged ok_inv_def on_selected_field_frame)
next
  case Cancel
  assume "ok_inv d"
  then show ?thesis
    by (simp add: Cancel ok_inv_def on_reset_layer_def on_selected_field_frame
        on_selected_layer_frame)
qed (simp_all add: ok_inv_def on_select_all_def on_deselect_all_def)

lemma ok_inv_run: "ok_inv d \<Longrightarrow> ok_inv (run h d es)"
proof (induction es arbitrary: d)
  case Nil
  then show ?case by simp
next
  case (Cons e es)
  from Cons.prems have "ok_inv (step h d e)"
    by (rule ok_inv_step)
  then have "ok_inv (run h (step h d e) es)"
    by (rule Cons.IH)
  then show ?case by simp
qed

lemma ok_inv_init: "init h cfg project = Inr d \<Longrightarrow> ok_inv d"
  by (auto simp add: init_def ok_inv_def split: sum.splits)

text \<open>
  C8: the dialog is built with the confirm button disabled and the layer selector on the
  placeholder. After any sequence of events the confirm button is enabled exactly when
  the layer selector is off the placeholder, which is exactly when it holds a layer; and a
  layer-changed event that selects an entry other than the placeholder enables it.
\<close>

theorem ok_button_enabled_iff_layer_chosen:
  assumes "init h cfg project = Inr d0"
  shows "\<not> ok_button d0 \<and> layer_index d0 = 0 \<and>
         (ok_button (run h d0 es) \<longleftrightarrow> layer_index (run h d0 es) \<noteq> 0) \<and>
         (layer_index (run h d0 es) \<noteq> 0 \<longleftrightarrow> currentLayer (run h d0 es) \<noteq> None) \<and>
         (0 < i \<and> i \<le> length (layer_items (run h d0 es)) \<longrightarrow>
            ok_button (step h (run h d0 es) (LayerChanged i)))"
proof -
  from assms have i: "ok_inv d0"
    by (rule ok_inv_init)
  then have r: "ok_inv (run h d0 es)"
    by (rule ok_inv_run)
  from assms have "\<not> ok_button d0 \<and> layer_index d0 = 0"
    by (auto simp add: init_def split: sum.splits)
  moreover from r have "ok_button (run h d0 es) \<longleftrightarrow> layer_index (run h d0 es) \<noteq> 0"
    by (simp add: ok_inv_def)
  moreover from r have "layer_index (run h d0 es) \<noteq> 0 \<longleftrightarrow> currentLayer (run h d0 es) \<noteq> None"
    by (auto simp add: ok_inv_def currentLayer_def)
  moreover have "0 < i \<and> i \<le> length (layer_items (run h d0 es)) \<longrightarrow>
            ok_button (step h (run h d0 es) (LayerChanged i))"
    by (simp add: on_selected_layer_frame)
  ultimately show ?thesis by blast
qed

theorem ok_button_enabled_iff_layer_chosen_witness:
  "init string_host default_config [parcels, dem] = Inr start \<and>
   \<not> ok_button start \<and> layer_index start = 0 \<and>
   \<not> ok_button (run string_host start [LayerChanged 1, Cancel]) \<and>
   currentLayer (run string_host start [LayerChanged 1, Cancel]) = None \<and>
   0 < (2::nat) \<and> 2 \<le> length (layer_items (run string_host start [LayerChanged 1, Cancel])) \<and>
   ok_button (step string_host (run string_host start [LayerChanged 1, Cancel]) (LayerChanged 2))"
proof -
  have r: "run string_host start [LayerChanged 1, Cancel] = start"
    using cancelled_session_eval by (simp add: cancelled_session_def)
  have l: "layer_index start = 0" "length (layer_items start) = 2"
    by (simp_all add: start_def)
  from ok_button_enabled_iff_layer_chosen [OF init_start, of "[LayerChanged 1, Cancel]" 2]
  show ?thesis
    unfolding r using l init_start by simp
qed

text \<open>
  C4 on the code: a session in which a layer with features is chosen, the host then removes
  the features of that layer, and a field still listed in the field selector is chosen.
  The enumeration succeeds with no value; the value list is empty and the confirm button is
  enabled, but the bulk select/deselect buttons are enabled too, since the \<^verbatim>\<open>try\<close>
  branch of \<^verbatim>\<open>on_selected_field\<close> enables them without looking at the list.
\<close>

theorem zero_values_bulk_buttons_enabled:
  "init string_host default_config [parcels, dem] = Inr start \<and>
   emptied_session =
     run string_host start
       [LayerChanged 1, HostEdited 0 parcels_emptied, FieldChanged ''status''] \<and>
   currentLayer emptied_session = Some parcels_emptied \<and>
   accepted_field emptied_session = Some status_field \<and>
   generate_feature_model string_host emptied_session = Inr [] \<and>
   feature_wdgt emptied_session = [] \<and>
   selection_button emptied_session \<and> ok_button emptied_session"
proof -
  have "currentLayer emptied_session = Some parcels_emptied"
    by (simp add: emptied_session_eval start_def currentLayer_def)
  moreover have "accepted_field emptied_session = Some status_field"
    by (simp add: emptied_session_eval start_def accepted_field_def QgsFields_field_def
        status_field_def built_field_def)
  moreover have "generate_feature_model string_host emptied_session = Inr []"
    by (simp add: emptied_session_eval start_def session_eval)
  moreover have "feature_wdgt emptied_session = [] \<and> selection_button emptied_session \<and>
      ok_button emptied_session"
    by (simp add: emptied_session_eval)
  ultimately show ?thesis
    using init_start by (simp add: emptied_session_def)
qed

end
